theory Spec2Isabelle
  imports Main "HOL-Library.Word"
begin

section \<open>Values of the voting example's membership contract\<close>

text \<open>
  The contract \<^verbatim>\<open>Membership_\<close> of
  \<^verbatim>\<open>src/examples/zkapps/voting/membership.ts\<close> works on field elements, unsigned
  64-bit balances, public keys and \<^verbatim>\<open>Member\<close> values. Field elements are used through
  equality only (and through the hash and the Merkle witness, which are collaborators
  outside the file), so a field element is a natural number here. A balance is a
  \<^verbatim>\<open>UInt64\<close>: a 64-bit word, compared as unsigned.
\<close>

type_synonym Field = nat
type_synonym UInt64 = "64 word"
type_synonym PublicKey = Field
type_synonym MerkleWitness = "(bool \<times> Field) list"

text \<open>
  Modelled from the spec: \<^verbatim>\<open>Member\<close> (\<^verbatim>\<open>./member\<close>, not among the sources) is the
  spec's MembershipEntry \<^verbatim>\<open>{ identity, attribute, witness }\<close>; the contract reads
  \<^verbatim>\<open>member.publicKey\<close>, \<^verbatim>\<open>member.balance\<close> and \<^verbatim>\<open>member.witness\<close>.
\<close>

record Member =
  publicKey :: PublicKey
  balance :: UInt64
  witness :: MerkleWitness

text \<open>
  Modelled from the spec: \<^verbatim>\<open>PublicKey.empty()\<close> is the sentinel identity, "the additive
  identity of the identity space", and \<^verbatim>\<open>Member.empty()\<close> is the distinguished EMPTY
  entry that carries it.
\<close>

definition PublicKey_empty :: PublicKey where
  "PublicKey_empty = 0"

definition Member_empty :: Member where
  "Member_empty = \<lparr>publicKey = PublicKey_empty, balance = 0, witness = []\<rparr>"

text \<open>
  Modelled from the spec: \<^verbatim>\<open>_action.equals(member)\<close> is the spec's
  \<^verbatim>\<open>entry == candidate\<close>, equality of the two entries.
\<close>

definition Member_equals :: "Member \<Rightarrow> Member \<Rightarrow> bool" where
  "Member_equals a b = (a = b)"

definition PublicKey_equals :: "PublicKey \<Rightarrow> PublicKey \<Rightarrow> bool" where
  "PublicKey_equals a b = (a = b)"

definition Field_equals :: "Field \<Rightarrow> Field \<Rightarrow> bool" where
  "Field_equals a b = (a = b)"

text \<open>\<^verbatim>\<open>Bool.and\<close>, \<^verbatim>\<open>Bool.or\<close>, \<^verbatim>\<open>UInt64.gte\<close> and \<^verbatim>\<open>UInt64.lte\<close>.\<close>

definition Bool_and :: "bool \<Rightarrow> bool \<Rightarrow> bool" where
  "Bool_and a b = (a \<and> b)"

definition Bool_or :: "bool \<Rightarrow> bool \<Rightarrow> bool" where
  "Bool_or a b = (a \<or> b)"

definition UInt64_gte :: "UInt64 \<Rightarrow> UInt64 \<Rightarrow> bool" where
  "UInt64_gte a b = (b \<le> a)"

definition UInt64_lte :: "UInt64 \<Rightarrow> UInt64 \<Rightarrow> bool" where
  "UInt64_lte a b = (a \<le> b)"

text \<open>
  Modelled from the spec: \<^verbatim>\<open>Circuit.if\<close> is the branchless
  \<^verbatim>\<open>select(condition, ifTrue, ifFalse)\<close>: a function of both values, which are computed
  by the caller before the selection.
\<close>

definition Circuit_if :: "bool \<Rightarrow> 'a \<Rightarrow> 'a \<Rightarrow> 'a" where
  "Circuit_if condition ifTrue ifFalse = (if condition then ifTrue else ifFalse)"

text \<open>
  The two ways a method can fail: an assertion on a \<^verbatim>\<open>Bool\<close> that is false, and a
  precondition on the contract's state that does not hold.
\<close>

datatype error = AssertionError | PreconditionError

definition Bool_assertTrue :: "bool \<Rightarrow> error + unit" where
  "Bool_assertTrue b = (if b then Inr () else Inl AssertionError)"

definition State_assertEquals :: "Field \<Rightarrow> Field \<Rightarrow> error + unit" where
  "State_assertEquals current expected =
     (if Field_equals current expected then Inr () else Inl PreconditionError)"

section \<open>Collaborators outside the file\<close>

text \<open>
  \<^verbatim>\<open>Poseidon.hash\<close>, \<^verbatim>\<open>Member.toFields\<close>, \<^verbatim>\<open>MerkleWitness.calculateRoot\<close> and the
  way the reducer's \<^verbatim>\<open>actionsHash\<close> advances over one action are not among the sources and
  the spec leaves them opaque (deterministic, pure). They are parameters of the model.
\<close>

record prims =
  Poseidon_hash :: "Field list \<Rightarrow> Field"
  toFields :: "Member \<Rightarrow> Field list"
  calculateRoot :: "MerkleWitness \<Rightarrow> Field \<Rightarrow> Field"
  pushAction :: "Field \<Rightarrow> Member \<Rightarrow> Field"

record 's ReducerState =
  state :: 's
  actionsHash :: Field

text \<open>
  Modelled from the spec: \<^verbatim>\<open>reducer.reduce\<close> (\<^verbatim>\<open>Experimental.Reducer\<close>, not among
  the sources) is the spec's fold engine: it applies the step left to right over the
  actions it is given, in their order, and returns the final value together with the
  marker of the log after the processed actions.
\<close>

fun reduce :: "prims \<Rightarrow> Member list \<Rightarrow> ('s \<Rightarrow> Member \<Rightarrow> 's) \<Rightarrow> 's ReducerState \<Rightarrow> 's ReducerState" where
  "reduce P [] step acc = acc"
| "reduce P (a # actions) step acc =
     reduce P actions step
       \<lparr>state = step (state acc) a, actionsHash = pushAction P (actionsHash acc) a\<rparr>"

section \<open>The module and the contract\<close>

record ParticipantPreconditions =
  minMina :: UInt64
  maxMina :: UInt64



text \<open>
  The contract's state: the two on-chain fields and the actions dispatched through
  \<^verbatim>\<open>reducer.dispatch\<close>, oldest first.
\<close>

record Membership_state =
  committedMembers :: Field
  accumulatedMembers :: Field
  dispatched :: "Member list"

definition dispatch :: "Member \<Rightarrow> Membership_state \<Rightarrow> Membership_state" where
  "dispatch action this = this\<lparr>dispatched := dispatched this @ [action]\<rparr>"

subsection \<open>addEntry\<close>

text \<open>
  Lines 81 to 83 compute the range condition from the module variable:
  \<^verbatim>\<open>member.balance.gte(participantPreconditions.minMina)
      .and(member.balance.lte(participantPreconditions.maxMina))\<close>.
\<close>

definition addEntry_range :: "ParticipantPreconditions \<Rightarrow> Member \<Rightarrow> bool" where
  "addEntry_range moduleVar member =
     Bool_and (UInt64_gte (balance member) (minMina moduleVar))
              (UInt64_lte (balance member) (maxMina moduleVar))"

text \<open>The callback of the existence scan, lines 92 to 94.\<close>

definition addEntry_step :: "Member \<Rightarrow> bool \<Rightarrow> Member \<Rightarrow> bool" where
  "addEntry_step member st action = Bool_or (Member_equals action member) st"

text \<open>
  The body of \<^verbatim>\<open>addEntry\<close>, with the list of actions handed to the reducer as a
  parameter. The statement of lines 81 to 83 ends in \<^verbatim>\<open>.assertTrue;\<close>: it names the
  method of the range condition and does not call it, so its value is a function that is
  never applied. The precondition of line 86 compares the state with the value just read
  from it.
\<close>

definition addEntry_on :: "Member list \<Rightarrow> prims \<Rightarrow> ParticipantPreconditions \<Rightarrow> Member \<Rightarrow> Membership_state \<Rightarrow> error + (bool \<times> Membership_state)" where
  "addEntry_on actions P moduleVar member this =
     (let assertTrue_unapplied = (\<lambda>u :: unit. Bool_assertTrue (addEntry_range moduleVar member));
          accumulated = accumulatedMembers this
      in case State_assertEquals (accumulatedMembers this) accumulated of
           Inl e \<Rightarrow> Inl e
         | Inr u \<Rightarrow>
             (let exists = state (reduce P actions (addEntry_step member)
                                   \<lparr>state = False, actionsHash = accumulated\<rparr>);
                  toEmit = Circuit_if exists Member_empty member
              in Inr (exists, dispatch toEmit this)))"

text \<open>
  \<^verbatim>\<open>addEntry\<close> as the source has it: the reducer is handed the empty list
  (\<^verbatim>\<open>[], // TODO: sequence events\<close>).
\<close>

definition addEntry :: "prims \<Rightarrow> ParticipantPreconditions \<Rightarrow> Member \<Rightarrow> Membership_state \<Rightarrow> error + (bool \<times> Membership_state)" where
  "addEntry P moduleVar member this = addEntry_on [] P moduleVar member this"

subsection \<open>isMember\<close>

definition isMember :: "prims \<Rightarrow> Member \<Rightarrow> Membership_state \<Rightarrow> error + (bool \<times> Membership_state)" where
  "isMember P member this =
     (let committed = committedMembers this
      in case State_assertEquals (committedMembers this) committed of
           Inl e \<Rightarrow> Inl e
         | Inr u \<Rightarrow>
             Inr (Field_equals
                    (calculateRoot P (witness member) (Poseidon_hash P (toFields P member)))
                    committed,
                  this))"

subsection \<open>publish\<close>

text \<open>
  The callback of the Merkle fold, lines 146 to 161. JavaScript evaluates the arguments
  of a call before the call, so every run of the callback evaluates
  \<^verbatim>\<open>_action.witness.calculateRoot(Poseidon.hash(_action.toFields()))\<close> and only then hands
  its value, with \<^verbatim>\<open>state\<close>, to the second \<^verbatim>\<open>Circuit.if\<close>. A run of the callback gives
  its value together with the calls it evaluated, in the order of evaluation.
\<close>

datatype evaluation =
    Evaluated_PublicKey_equals PublicKey PublicKey
  | Evaluated_Circuit_if bool
  | Evaluated_toFields Member
  | Evaluated_Poseidon_hash "Field list"
  | Evaluated_calculateRoot MerkleWitness Field

definition publish_step_run :: "prims \<Rightarrow> Field \<Rightarrow> Member \<Rightarrow> Field \<times> evaluation list" where
  "publish_step_run P st action =
     (let isEmpty = PublicKey_equals (publicKey action) PublicKey_empty;
          isRealMember = Circuit_if isEmpty False True;
          fields = toFields P action;
          leaf = Poseidon_hash P fields;
          recomputed = calculateRoot P (witness action) leaf;
          result = Circuit_if isRealMember recomputed st
      in (result,
          [Evaluated_PublicKey_equals (publicKey action) PublicKey_empty,
           Evaluated_Circuit_if isEmpty,
           Evaluated_toFields action,
           Evaluated_Poseidon_hash fields,
           Evaluated_calculateRoot (witness action) leaf,
           Evaluated_Circuit_if isRealMember]))"

definition publish_step :: "prims \<Rightarrow> Field \<Rightarrow> Member \<Rightarrow> Field" where
  "publish_step P st action = fst (publish_step_run P st action)"

text \<open>
  Modelled from the spec: \<^verbatim>\<open>State.set\<close> and the storage behind it (\<^verbatim>\<open>State\<close>, not among
  the sources). The spec has the root and the marker "persisted as two scalar state
  values by the surrounding contract/storage layer", this code "only computes their next
  values", and the checkpoint is written back "atomically": a run of a method collects
  its \<^verbatim>\<open>set\<close> calls, and the storage persists them together when the run ends. What can
  be observed of a run is the state before it and the state after its writes are
  persisted.
\<close>

datatype state_write = Set_committedMembers Field | Set_accumulatedMembers Field

fun apply_write :: "state_write \<Rightarrow> Membership_state \<Rightarrow> Membership_state" where
  "apply_write (Set_committedMembers v) this = this\<lparr>committedMembers := v\<rparr>"
| "apply_write (Set_accumulatedMembers v) this = this\<lparr>accumulatedMembers := v\<rparr>"

definition persist :: "state_write list \<Rightarrow> Membership_state \<Rightarrow> Membership_state" where
  "persist writes this = fold apply_write writes this"


text \<open>
  The body of \<^verbatim>\<open>publish\<close>, with the list of actions handed to the reducer as a
  parameter: it reads the two fields, folds, and calls \<^verbatim>\<open>this.committedMembers.set\<close> and
  then \<^verbatim>\<open>this.accumulatedMembers.set\<close> (lines 166 and 167).
\<close>

definition publish_sets :: "Member list \<Rightarrow> prims \<Rightarrow> Membership_state \<Rightarrow> error + state_write list" where
  "publish_sets actions P this =
     (let accumulated = accumulatedMembers this
      in case State_assertEquals (accumulatedMembers this) accumulated of
           Inl e \<Rightarrow> Inl e
         | Inr u \<Rightarrow>
             (let committed = committedMembers this
              in case State_assertEquals (committedMembers this) committed of
                   Inl e \<Rightarrow> Inl e
                 | Inr u \<Rightarrow>
                     (let r = reduce P actions (publish_step P)
                                \<lparr>state = committed, actionsHash = accumulated\<rparr>;
                          newCommittedMembers = state r;
                          newAccumulatedMembers = actionsHash r
                      in Inr [Set_committedMembers newCommittedMembers,
                              Set_accumulatedMembers newAccumulatedMembers])))"

text \<open>The method returns nothing; its result is the state it leaves.\<close>

definition publish_on :: "Member list \<Rightarrow> prims \<Rightarrow> Membership_state \<Rightarrow> error + Membership_state" where
  "publish_on actions P this =
     (case publish_sets actions P this of
        Inl e \<Rightarrow> Inl e
      | Inr writes \<Rightarrow> Inr (persist writes this))"

text \<open>
  \<^verbatim>\<open>publish\<close> as the source has it: the reducer is handed the empty list
  (\<^verbatim>\<open>[], // TODO: sequence events\<close>).
\<close>

definition publish :: "prims \<Rightarrow> Membership_state \<Rightarrow> error + Membership_state" where
  "publish P this = publish_on [] P this"

section \<open>Sample inputs\<close>

text \<open>
  The spec's end-to-end scenario: candidate A with attribute 5, bounds 0 to 10, an empty
  log; and toy collaborators to run the contract on.
\<close>

definition toy_prims :: prims where
  "toy_prims = \<lparr>Poseidon_hash = (\<lambda>xs. sum_list xs + 1),
                toFields = (\<lambda>m. [publicKey m, unat (balance m)]),
                calculateRoot = (\<lambda>w leaf. leaf + length w),
                pushAction = (\<lambda>h a. h + publicKey a + 1)\<rparr>"

definition scenario_bounds :: ParticipantPreconditions where
  "scenario_bounds = \<lparr>minMina = 0, maxMina = 10\<rparr>"

definition scenario_A :: Member where
  "scenario_A = \<lparr>publicKey = 1, balance = 5, witness = []\<rparr>"

definition scenario_start :: Membership_state where
  "scenario_start = \<lparr>committedMembers = 0, accumulatedMembers = 0, dispatched = []\<rparr>"

section \<open>Facts shared by the theorems\<close>

lemma State_assertEquals_same: "State_assertEquals x x = Inr ()"
  by (simp add: State_assertEquals_def Field_equals_def)

lemma reduce_addEntry_step:
  "state (reduce P actions (addEntry_step member) acc) = (state acc \<or> member \<in> set actions)"
proof (induction actions arbitrary: acc)
  case Nil
  show ?case by simp
next
  case (Cons a actions)
  have "addEntry_step member (state acc) a = (a = member \<or> state acc)"
    by (simp add: addEntry_step_def Bool_or_def Member_equals_def)
  then show ?case
    by (auto simp: Cons.IH)
qed

lemma addEntry_on_result:
  "addEntry_on actions P moduleVar member this =
     Inr (member \<in> set actions,
          dispatch (Circuit_if (member \<in> set actions) Member_empty member) this)"
  by (simp add: addEntry_on_def Let_def State_assertEquals_same reduce_addEntry_step)

lemma addEntry_result:
  "addEntry P moduleVar member this = Inr (False, dispatch member this)"
  by (simp add: addEntry_def addEntry_on_result Circuit_if_def)

lemma isMember_result:
  "isMember P member this =
     Inr (calculateRoot P (witness member) (Poseidon_hash P (toFields P member))
            = committedMembers this,
          this)"
  by (simp add: isMember_def Let_def State_assertEquals_same Field_equals_def)

lemma publish_sets_result:
  "publish_sets actions P this =
     Inr [Set_committedMembers
            (state (reduce P actions (publish_step P)
                     \<lparr>state = committedMembers this,
                      actionsHash = accumulatedMembers this\<rparr>)),
          Set_accumulatedMembers
            (actionsHash (reduce P actions (publish_step P)
                           \<lparr>state = committedMembers this,
                            actionsHash = accumulatedMembers this\<rparr>))]"
  by (simp add: publish_sets_def Let_def State_assertEquals_same)

lemma publish_on_result:
  "publish_on actions P this =
     Inr (this\<lparr>committedMembers :=
                  state (reduce P actions (publish_step P)
                          \<lparr>state = committedMembers this,
                           actionsHash = accumulatedMembers this\<rparr>),
               accumulatedMembers :=
                  actionsHash (reduce P actions (publish_step P)
                                \<lparr>state = committedMembers this,
                                 actionsHash = accumulatedMembers this\<rparr>)\<rparr>)"
  by (simp add: publish_on_def publish_sets_result persist_def)



lemma publish_result: "publish P this = Inr this"
  by (simp add: publish_def publish_on_result)

lemma scenario_A_in_range: "addEntry_range scenario_bounds scenario_A"
  by (simp add: addEntry_range_def scenario_bounds_def scenario_A_def
      Bool_and_def UInt64_gte_def UInt64_lte_def)

section \<open>The claims\<close>

text \<open>
  C1. The claim: a candidate whose balance lies outside the bounds makes \<^verbatim>\<open>addEntry\<close>
  fail and append nothing. The code computes the range condition and then only names
  \<^verbatim>\<open>assertTrue\<close>, so nothing is asserted: with bounds 0 to 10 and a balance of 11 the
  range condition is false, and \<^verbatim>\<open>addEntry\<close> returns false and dispatches the candidate.
\<close>

theorem addEntry_range_never_asserted:
  "addEntry_range scenario_bounds (scenario_A\<lparr>balance := 11\<rparr>) = False \<and>
   addEntry toy_prims scenario_bounds (scenario_A\<lparr>balance := 11\<rparr>) scenario_start =
     Inr (False, scenario_start\<lparr>dispatched := [scenario_A\<lparr>balance := 11\<rparr>]\<rparr>)"
proof
  show "addEntry_range scenario_bounds (scenario_A\<lparr>balance := 11\<rparr>) = False"
    by (simp add: addEntry_range_def scenario_bounds_def scenario_A_def
        Bool_and_def UInt64_gte_def UInt64_lte_def)
  show "addEntry toy_prims scenario_bounds (scenario_A\<lparr>balance := 11\<rparr>) scenario_start =
          Inr (False, scenario_start\<lparr>dispatched := [scenario_A\<lparr>balance := 11\<rparr>]\<rparr>)"
    by (simp add: addEntry_result dispatch_def scenario_start_def)
qed

text \<open>
  C2. The claim: the second admission of a candidate, before a commit, returns true.
  The code hands the empty list to the existence scan (\<^verbatim>\<open>[], // TODO: sequence events\<close>),
  against its own comment "checking if the member already exists within the
  accumulator": admitting the spec's candidate A twice returns false both times.
\<close>

theorem addEntry_second_admission_returns_false:
  "addEntry_range scenario_bounds scenario_A \<and>
   addEntry toy_prims scenario_bounds scenario_A scenario_start =
     Inr (False, scenario_start\<lparr>dispatched := [scenario_A]\<rparr>) \<and>
   addEntry toy_prims scenario_bounds scenario_A (scenario_start\<lparr>dispatched := [scenario_A]\<rparr>) =
     Inr (False, scenario_start\<lparr>dispatched := [scenario_A, scenario_A]\<rparr>)"
  by (simp add: scenario_A_in_range addEntry_result dispatch_def scenario_start_def)

text \<open>
  C3. The claim: the one action dispatched is the empty member when the candidate
  already exists, and the returned value says so. On a contract whose log already holds
  candidate A, uncommitted, the code returns false and dispatches A itself, not the empty
  member, against its own comment "we emit an empty event if the member already exists".
\<close>

theorem addEntry_existing_member_dispatched_again:
  "addEntry_range scenario_bounds scenario_A \<and>
   scenario_A \<in> set (dispatched (scenario_start\<lparr>dispatched := [scenario_A]\<rparr>)) \<and>
   addEntry toy_prims scenario_bounds scenario_A (scenario_start\<lparr>dispatched := [scenario_A]\<rparr>) =
     Inr (False, scenario_start\<lparr>dispatched := [scenario_A] @ [scenario_A]\<rparr>) \<and>
   scenario_A \<noteq> Member_empty \<and>
   Circuit_if True Member_empty scenario_A = Member_empty"
proof (intro conjI)
  show "addEntry_range scenario_bounds scenario_A"
    by (rule scenario_A_in_range)
  show "scenario_A \<in> set (dispatched (scenario_start\<lparr>dispatched := [scenario_A]\<rparr>))"
    by simp
  show "addEntry toy_prims scenario_bounds scenario_A
          (scenario_start\<lparr>dispatched := [scenario_A]\<rparr>) =
        Inr (False, scenario_start\<lparr>dispatched := [scenario_A] @ [scenario_A]\<rparr>)"
    by (simp add: addEntry_result dispatch_def)
  show "scenario_A \<noteq> Member_empty"
    by (simp add: scenario_A_def Member_empty_def PublicKey_empty_def)
  show "Circuit_if True Member_empty scenario_A = Member_empty"
    by (simp add: Circuit_if_def)
qed

text \<open>
  C4. The existence scan: folding the step \<open>found OR (entry == candidate)\<close> from left to
  right over a sequence of actions, starting from false, gives true exactly when the
  candidate occurs in the sequence.
\<close>

theorem existence_scan_iff_occurs:
  "state (reduce P actions (addEntry_step member)
           \<lparr>state = False, actionsHash = accumulated\<rparr>)
     = (member \<in> set actions)"
  by (simp add: reduce_addEntry_step)

theorem existence_scan_iff_occurs_witness:
  "state (reduce toy_prims [Member_empty, scenario_A] (addEntry_step scenario_A)
           \<lparr>state = False, actionsHash = 0\<rparr>) = True \<and>
   state (reduce toy_prims [Member_empty, Member_empty] (addEntry_step scenario_A)
           \<lparr>state = False, actionsHash = 0\<rparr>) = False"
  using existence_scan_iff_occurs [of toy_prims "[Member_empty, scenario_A]" scenario_A 0]
        existence_scan_iff_occurs [of toy_prims "[Member_empty, Member_empty]" scenario_A 0]
  by (simp add: Member_empty_def scenario_A_def PublicKey_empty_def)

text \<open>
  C5. The step of the Merkle fold. For every accumulator value \<open>root\<close> and every entry,
  a run of the step evaluates the same calls in the same order, the recomputation of the
  root from the entry's witness over the entry's hash among them, whether or not the
  entry is the empty member; only the last selection depends on the entry. Its value is
  the recomputed root when the entry's public key differs from the empty member's, and
  \<open>root\<close> itself when the two are equal.
\<close>

theorem publish_step_evaluates_both:
  "publish_step_run P root entry =
     (Circuit_if (publicKey entry \<noteq> publicKey Member_empty)
        (calculateRoot P (witness entry) (Poseidon_hash P (toFields P entry)))
        root,
      [Evaluated_PublicKey_equals (publicKey entry) (publicKey Member_empty),
       Evaluated_Circuit_if (publicKey entry = publicKey Member_empty),
       Evaluated_toFields entry,
       Evaluated_Poseidon_hash (toFields P entry),
       Evaluated_calculateRoot (witness entry) (Poseidon_hash P (toFields P entry)),
       Evaluated_Circuit_if (publicKey entry \<noteq> publicKey Member_empty)]) \<and>
   publish_step P root entry =
     (if publicKey entry = publicKey Member_empty then root
      else calculateRoot P (witness entry) (Poseidon_hash P (toFields P entry))) \<and>
   Evaluated_calculateRoot (witness entry) (Poseidon_hash P (toFields P entry))
     \<in> set (snd (publish_step_run P root entry))"
  by (simp add: publish_step_def publish_step_run_def Let_def Circuit_if_def
      PublicKey_equals_def Member_empty_def)

theorem publish_step_evaluates_both_witness:
  "publish_step_run toy_prims 40 scenario_A =
     (7, [Evaluated_PublicKey_equals 1 0, Evaluated_Circuit_if False,
          Evaluated_toFields scenario_A, Evaluated_Poseidon_hash [1, 5],
          Evaluated_calculateRoot [] 7, Evaluated_Circuit_if True]) \<and>
   publish_step_run toy_prims 40 Member_empty =
     (40, [Evaluated_PublicKey_equals 0 0, Evaluated_Circuit_if True,
           Evaluated_toFields Member_empty, Evaluated_Poseidon_hash [0, 0],
           Evaluated_calculateRoot [] 1, Evaluated_Circuit_if False]) \<and>
   publish_step toy_prims 40 scenario_A = 7 \<and>
   publish_step toy_prims 40 Member_empty = 40"
  using publish_step_evaluates_both [of toy_prims 40 scenario_A]
        publish_step_evaluates_both [of toy_prims 40 Member_empty]
  by (simp add: toy_prims_def scenario_A_def Member_empty_def PublicKey_empty_def
      Circuit_if_def)

text \<open>
  C6. \<^verbatim>\<open>isMember\<close> returns whether the root recomputed from the entry's witness over
  the entry's hash equals the committed root. It depends on nothing else of the
  contract's state: changing the accumulated marker and the dispatched actions leaves
  its answer as it was, and so does an \<^verbatim>\<open>addEntry\<close> that has not been published.
\<close>

theorem isMember_iff_recomputed_root:
  "isMember P entry this =
     Inr (calculateRoot P (witness entry) (Poseidon_hash P (toFields P entry))
            = committedMembers this,
          this) \<and>
   isMember P entry (this\<lparr>accumulatedMembers := marker, dispatched := log\<rparr>) =
     Inr (calculateRoot P (witness entry) (Poseidon_hash P (toFields P entry))
            = committedMembers this,
          this\<lparr>accumulatedMembers := marker, dispatched := log\<rparr>) \<and>
   (\<exists>b this'. addEntry P moduleVar candidate this = Inr (b, this') \<and>
      isMember P entry this' =
        Inr (calculateRoot P (witness entry) (Poseidon_hash P (toFields P entry))
               = committedMembers this,
             this'))"
proof (intro conjI)
  show "isMember P entry this =
          Inr (calculateRoot P (witness entry) (Poseidon_hash P (toFields P entry))
                 = committedMembers this,
               this)"
    by (rule isMember_result)
  show "isMember P entry (this\<lparr>accumulatedMembers := marker, dispatched := log\<rparr>) =
          Inr (calculateRoot P (witness entry) (Poseidon_hash P (toFields P entry))
                 = committedMembers this,
               this\<lparr>accumulatedMembers := marker, dispatched := log\<rparr>)"
    by (simp add: isMember_result)
  have "isMember P entry (dispatch candidate this) =
          Inr (calculateRoot P (witness entry) (Poseidon_hash P (toFields P entry))
                 = committedMembers this,
               dispatch candidate this)"
    by (simp add: isMember_result dispatch_def)
  then show "\<exists>b this'. addEntry P moduleVar candidate this = Inr (b, this') \<and>
      isMember P entry this' =
        Inr (calculateRoot P (witness entry) (Poseidon_hash P (toFields P entry))
               = committedMembers this,
             this')"
    using addEntry_result [of P moduleVar candidate this] by blast
qed

theorem isMember_iff_recomputed_root_witness:
  "isMember toy_prims scenario_A (scenario_start\<lparr>committedMembers := 7\<rparr>) =
     Inr (True, scenario_start\<lparr>committedMembers := 7\<rparr>) \<and>
   isMember toy_prims scenario_A scenario_start = Inr (False, scenario_start) \<and>
   isMember toy_prims scenario_A (dispatch scenario_A scenario_start) =
     Inr (False, dispatch scenario_A scenario_start)"
  using isMember_iff_recomputed_root
          [of toy_prims scenario_A "scenario_start\<lparr>committedMembers := 7\<rparr>"]
        isMember_iff_recomputed_root [of toy_prims scenario_A scenario_start]
        isMember_iff_recomputed_root
          [of toy_prims scenario_A "dispatch scenario_A scenario_start"]
  by (simp add: toy_prims_def scenario_A_def scenario_start_def dispatch_def)

text \<open>
  C7. With no pending actions handed to the reducer, \<^verbatim>\<open>publish\<close> succeeds and leaves
  the committed root and the accumulated marker (the whole state) as they were; a second
  \<^verbatim>\<open>publish\<close> right after it gives the same root and marker again.
\<close>

theorem publish_without_pending_unchanged:
  "publish_on [] P this = Inr this \<and>
   publish P this = Inr this \<and>
   (\<exists>this1 this2. publish P this = Inr this1 \<and> publish P this1 = Inr this2 \<and>
      committedMembers this1 = committedMembers this \<and>
      accumulatedMembers this1 = accumulatedMembers this \<and>
      committedMembers this2 = committedMembers this1 \<and>
      accumulatedMembers this2 = accumulatedMembers this1)"
  by (simp add: publish_result publish_on_result)

theorem publish_without_pending_unchanged_witness:
  "publish toy_prims (scenario_start\<lparr>committedMembers := 7, accumulatedMembers := 3\<rparr>) =
     Inr \<lparr>committedMembers = 7, accumulatedMembers = 3, dispatched = []\<rparr>"
  using publish_without_pending_unchanged
          [of toy_prims "scenario_start\<lparr>committedMembers := 7, accumulatedMembers := 3\<rparr>"]
  by (simp add: scenario_start_def)





text \<open>
  C10, as the claim has it, fails: two candidates that differ in the balance only, both
  within the bounds and neither admitted before, are dispatched as two different
  actions.
\<close>

theorem addEntry_dispatch_differs_counterexample:
  "addEntry_range scenario_bounds scenario_A \<and>
   addEntry_range scenario_bounds (scenario_A\<lparr>balance := 7\<rparr>) \<and>
   addEntry toy_prims scenario_bounds scenario_A scenario_start =
     Inr (False, scenario_start\<lparr>dispatched := [scenario_A]\<rparr>) \<and>
   addEntry toy_prims scenario_bounds (scenario_A\<lparr>balance := 7\<rparr>) scenario_start =
     Inr (False, scenario_start\<lparr>dispatched := [scenario_A\<lparr>balance := 7\<rparr>]\<rparr>) \<and>
   scenario_A\<lparr>balance := 7\<rparr> \<noteq> scenario_A"
  by (simp add: addEntry_result dispatch_def scenario_start_def scenario_A_def
      addEntry_range_def scenario_bounds_def Bool_and_def UInt64_gte_def UInt64_lte_def)

text \<open>
  C10, amended. Two invocations of \<^verbatim>\<open>addEntry\<close> on the same contract state, with
  candidates that differ in the balance only, each within the bounds configured for its
  invocation and neither among the actions dispatched so far, both succeed and return
  equal results (false); each dispatches its own candidate, so the two dispatched
  actions are equal exactly when the balances are.
\<close>

theorem addEntry_outcome_for_new_eligible:
  assumes "addEntry_range moduleVar1 member"
      and "addEntry_range moduleVar2 (member\<lparr>balance := b\<rparr>)"
      and "member \<notin> set (dispatched this)"
      and "member\<lparr>balance := b\<rparr> \<notin> set (dispatched this)"
  shows "addEntry P moduleVar1 member this =
           Inr (False, this\<lparr>dispatched := dispatched this @ [member]\<rparr>) \<and>
         addEntry P moduleVar2 (member\<lparr>balance := b\<rparr>) this =
           Inr (False, this\<lparr>dispatched := dispatched this @ [member\<lparr>balance := b\<rparr>]\<rparr>) \<and>
         (member\<lparr>balance := b\<rparr> = member) = (b = balance member)"
proof (intro conjI)
  show "addEntry P moduleVar1 member this =
          Inr (False, this\<lparr>dispatched := dispatched this @ [member]\<rparr>)"
    by (simp add: addEntry_result dispatch_def)
  show "addEntry P moduleVar2 (member\<lparr>balance := b\<rparr>) this =
          Inr (False, this\<lparr>dispatched := dispatched this @ [member\<lparr>balance := b\<rparr>]\<rparr>)"
    by (simp add: addEntry_result dispatch_def)
  show "(member\<lparr>balance := b\<rparr> = member) = (b = balance member)"
    by (cases member) auto
qed

theorem addEntry_outcome_for_new_eligible_witness:
  "addEntry_range scenario_bounds scenario_A \<and>
   addEntry_range \<lparr>minMina = 6, maxMina = 8\<rparr> (scenario_A\<lparr>balance := 7\<rparr>) \<and>
   scenario_A \<notin> set (dispatched scenario_start) \<and>
   scenario_A\<lparr>balance := 7\<rparr> \<notin> set (dispatched scenario_start) \<and>
   addEntry toy_prims scenario_bounds scenario_A scenario_start =
     Inr (False, scenario_start\<lparr>dispatched := [scenario_A]\<rparr>) \<and>
   addEntry toy_prims \<lparr>minMina = 6, maxMina = 8\<rparr> (scenario_A\<lparr>balance := 7\<rparr>)
       scenario_start =
     Inr (False, scenario_start\<lparr>dispatched := [scenario_A\<lparr>balance := 7\<rparr>]\<rparr>)"
proof -
  have h1: "addEntry_range scenario_bounds scenario_A"
    by (rule scenario_A_in_range)
  have h2: "addEntry_range \<lparr>minMina = 6, maxMina = 8\<rparr> (scenario_A\<lparr>balance := 7\<rparr>)"
    by (simp add: addEntry_range_def scenario_A_def Bool_and_def UInt64_gte_def
        UInt64_lte_def)
  have h3: "scenario_A \<notin> set (dispatched scenario_start)"
    by (simp add: scenario_start_def)
  have h4: "scenario_A\<lparr>balance := 7\<rparr> \<notin> set (dispatched scenario_start)"
    by (simp add: scenario_start_def)
  show ?thesis
    using h1 h2 h3 h4
      addEntry_outcome_for_new_eligible [OF h1 h2 h3 h4, of toy_prims]
    by (simp add: scenario_start_def)
qed

end
